theory Spec2Isabelle
  imports Main
begin

section \<open>JavaScript values and the two equality operators\<close>

text \<open>
  The hover state and the item identifiers are JavaScript strings
  (\<^verbatim>\<open>useState("")\<close>, \<^verbatim>\<open>id: string\<close>, \<^verbatim>\<open>String(i)\<close>).  The variants compare them
  with \<^verbatim>\<open>==\<close> in some places and with \<^verbatim>\<open>===\<close> in others, so both operators are
  defined on a small universe of values: on two values of the same type \<^verbatim>\<open>==\<close> is
  \<^verbatim>\<open>===\<close>; on different types \<^verbatim>\<open>==\<close> identifies \<^verbatim>\<open>null\<close> and \<^verbatim>\<open>undefined\<close>.
\<close>

datatype js_value = JSUndefined | JSNull | JSString string

fun strict_eq :: "js_value \<Rightarrow> js_value \<Rightarrow> bool" where
  "strict_eq JSUndefined JSUndefined = True"
| "strict_eq JSNull JSNull = True"
| "strict_eq (JSString x) (JSString y) = (x = y)"
| "strict_eq _ _ = False"

fun loose_eq :: "js_value \<Rightarrow> js_value \<Rightarrow> bool" where
  "loose_eq JSUndefined JSNull = True"
| "loose_eq JSNull JSUndefined = True"
| "loose_eq x y = strict_eq x y"


section \<open>Item identifiers\<close>

text \<open>
  \<^verbatim>\<open>String(i)\<close> on a non-negative integer is its decimal numeral without leading
  zeros.
\<close>

definition digit :: "nat \<Rightarrow> char" where
  "digit d = ''0123456789'' ! d"

function String :: "nat \<Rightarrow> string" where
  "String n = (if n < 10 then [digit n] else String (n div 10) @ [digit (n mod 10)])"
  by pat_completeness auto
termination
  by (relation "measure id") auto

declare String.simps [simp del]

text \<open>Reading a decimal numeral back; used to show that \<open>String\<close> is injective.\<close>

definition decimal :: "string \<Rightarrow> nat" where
  "decimal cs = foldl (\<lambda>a c. 10 * a + (of_char c - 48)) 0 cs"


section \<open>The hover state and its handlers\<close>

text \<open>
  \<^verbatim>\<open>const [hoveredElementId, setHoveredElementId] = useState("")\<close>: the state is one
  string, the empty string standing for "nothing is hovered".  A handler is modelled
  as a function from the value of \<open>hoveredElementId\<close> it sees to the value the state
  has after it returns (\<^verbatim>\<open>setHoveredElementId(v)\<close> makes it \<open>v\<close>; a handler that does
  not call the setter leaves it as it was).
\<close>

definition initial_hoveredElementId :: string where
  "initial_hoveredElementId = ''''"

subsection \<open>The inline variant (one component, the handlers written in the loop)\<close>

text \<open>
  The handlers are closures made in iteration \<open>i\<close> of the loop; \<open>elementId\<close> is the
  \<^verbatim>\<open>String(i)\<close> of that iteration.
\<close>

definition onMouseEnter_inline :: "string \<Rightarrow> string \<Rightarrow> string" where
  "onMouseEnter_inline elementId hoveredElementId = elementId"

definition onMouseLeave_inline :: "string \<Rightarrow> string \<Rightarrow> string" where
  "onMouseLeave_inline elementId hoveredElementId =
     (if loose_eq (JSString elementId) (JSString hoveredElementId) then ''''
      else hoveredElementId)"

subsection \<open>The variant with the extracted \<open>Element\<close> component (App.tsx, first module)\<close>

definition handleMouseEnter :: "string \<Rightarrow> string \<Rightarrow> string" where
  "handleMouseEnter id' hoveredElementId = id'"

definition handleMouseLeave :: "string \<Rightarrow> string \<Rightarrow> string" where
  "handleMouseLeave id' hoveredElementId =
     (if loose_eq (JSString id') (JSString hoveredElementId) then ''''
      else hoveredElementId)"

subsection \<open>The variant with \<open>React.memo\<close> (App.tsx, second module)\<close>

definition handleMouseEnter_memo :: "string \<Rightarrow> string \<Rightarrow> string" where
  "handleMouseEnter_memo id' hoveredElementId = id'"

definition handleMouseLeave_memo :: "string \<Rightarrow> string \<Rightarrow> string" where
  "handleMouseLeave_memo id' hoveredElementId =
     (if strict_eq (JSString id') (JSString hoveredElementId) then ''''
      else hoveredElementId)"

subsection \<open>The variant with \<open>React.memo\<close> and \<open>useCallback\<close> (the article's last listing)\<close>

text \<open>
  \<^verbatim>\<open>useCallback(f, deps)\<close> keeps returning the function of the first render for as long
  as \<open>deps\<close> is unchanged.  Both handlers are given \<^verbatim>\<open>[setHoveredElementId]\<close>, which
  React never changes, so \<^verbatim>\<open>handleMouseLeave\<close> is for ever the closure of the first
  render, and the \<open>hoveredElementId\<close> it reads is the one of that render: the initial
  value.  The current state reaches the handler only as the value it leaves in place.
\<close>

definition handleMouseEnter_useCallback :: "string \<Rightarrow> string \<Rightarrow> string" where
  "handleMouseEnter_useCallback id' hoveredElementId = id'"

definition handleMouseLeave_useCallback :: "string \<Rightarrow> string \<Rightarrow> string" where
  "handleMouseLeave_useCallback id' hoveredElementId =
     (if strict_eq (JSString id') (JSString initial_hoveredElementId) then ''''
      else hoveredElementId)"

subsection \<open>The four React variants behind one interface\<close>

datatype variant = Inline | Extracted | Memo | MemoUseCallback

fun onEnter :: "variant \<Rightarrow> string \<Rightarrow> string \<Rightarrow> string" where
  "onEnter Inline = onMouseEnter_inline"
| "onEnter Extracted = handleMouseEnter"
| "onEnter Memo = handleMouseEnter_memo"
| "onEnter MemoUseCallback = handleMouseEnter_useCallback"

fun onLeave :: "variant \<Rightarrow> string \<Rightarrow> string \<Rightarrow> string" where
  "onLeave Inline = onMouseLeave_inline"
| "onLeave Extracted = handleMouseLeave"
| "onLeave Memo = handleMouseLeave_memo"
| "onLeave MemoUseCallback = handleMouseLeave_useCallback"

text \<open>
  The highlight of an item: \<^verbatim>\<open>hoveredElementId === elementId\<close> in the inline variant,
  \<^verbatim>\<open>props.hoveredElementId === props.id\<close> in \<open>Element\<close> (the same in every module).
\<close>

definition isHovered :: "string \<Rightarrow> string \<Rightarrow> bool" where
  "isHovered hoveredElementId id' = strict_eq (JSString hoveredElementId) (JSString id')"


section \<open>Rendering\<close>

text \<open>
  An event is a pointer entering or leaving the element built in iteration \<open>i\<close> of the
  loop \<^verbatim>\<open>for (let i = 0; i < 500; i++)\<close>; that element calls the handler with
  \<^verbatim>\<open>String(i)\<close>.
\<close>

datatype event = MouseEnter nat | MouseLeave nat

fun dispatch :: "variant \<Rightarrow> event \<Rightarrow> string \<Rightarrow> string" where
  "dispatch v (MouseEnter i) hoveredElementId = onEnter v (String i) hoveredElementId"
| "dispatch v (MouseLeave i) hoveredElementId = onLeave v (String i) hoveredElementId"

text \<open>
  What is on the screen is what each element computed when it last rendered.  The view
  therefore keeps, beside the state \<open>hoverState\<close>, the \<open>hoveredElementId\<close> each element
  was last rendered with, in the order of the loop; the highlight of element \<open>i\<close> is
  \<open>isHovered\<close> of that value and \<^verbatim>\<open>String(i)\<close>.  An index beyond the list is no
  element, and nothing is highlighted there.
\<close>

record view =
  hoverState :: string
  rendered :: "string list"

definition highlighted :: "view \<Rightarrow> nat \<Rightarrow> bool" where
  "highlighted s i \<longleftrightarrow> i < length (rendered s) \<and> isHovered (rendered s ! i) (String i)"

text \<open>
  The comparison given to \<^verbatim>\<open>React.memo\<close>.  Its last line is lodash's \<^verbatim>\<open>_.isEqual\<close> on
  the remaining props; lodash is not part of the repository, so the outcome of that
  call is a parameter.
\<close>

definition propsAreEqual :: "bool \<Rightarrow> string \<Rightarrow> string \<Rightarrow> string \<Rightarrow> bool" where
  "propsAreEqual isEqual oldHoveredElementId newHoveredElementId id' =
     (if strict_eq (JSString oldHoveredElementId) (JSString id') then False
      else if strict_eq (JSString newHoveredElementId) (JSString id') then False
      else isEqual)"

text \<open>
  \<^verbatim>\<open>React.memo(Element, propsAreEqual)\<close>: when the comparison of the props of the last
  render with the new props says "equal", the element is not rendered again and stays
  as it was; otherwise \<open>Element\<close> runs with the new props.
\<close>

definition MemoedElement :: "bool \<Rightarrow> string \<Rightarrow> string \<Rightarrow> string \<Rightarrow> string" where
  "MemoedElement isEqual id' oldHoveredElementId newHoveredElementId =
     (if propsAreEqual isEqual oldHoveredElementId newHoveredElementId id'
      then oldHoveredElementId else newHoveredElementId)"

text \<open>
  One run of \<open>App\<close>: the loop over the 500 elements, \<open>prev\<close> being what the elements
  were last rendered with.  The first two variants render every element with the
  current state.  The memoised ones ask \<open>MemoedElement\<close>, with \<open>isEqual i\<close> the outcome
  of \<^verbatim>\<open>_.isEqual\<close> for element \<open>i\<close> in this run; an element with no earlier render has
  nothing to be compared with and is rendered.
\<close>

fun App :: "variant \<Rightarrow> (nat \<Rightarrow> bool) \<Rightarrow> string \<Rightarrow> string list \<Rightarrow> string list" where
  "App Inline isEqual hoveredElementId prev = map (\<lambda>i. hoveredElementId) [0..<500]"
| "App Extracted isEqual hoveredElementId prev = map (\<lambda>i. hoveredElementId) [0..<500]"
| "App Memo isEqual hoveredElementId prev =
     map (\<lambda>i. if i < length prev
              then MemoedElement (isEqual i) (String i) (prev ! i) hoveredElementId
              else hoveredElementId) [0..<500]"
| "App MemoUseCallback isEqual hoveredElementId prev =
     map (\<lambda>i. if i < length prev
              then MemoedElement (isEqual i) (String i) (prev ! i) hoveredElementId
              else hoveredElementId) [0..<500]"

text \<open>The first render: every element is rendered, with the initial state.\<close>

definition mount :: view where
  "mount = \<lparr>hoverState = initial_hoveredElementId,
      rendered = map (\<lambda>i. initial_hoveredElementId) [0..<500]\<rparr>"

text \<open>
  Handling one event: the handler runs; when it has changed the state, \<open>App\<close> runs
  again before the next event.  When the state is what it was (the setter was not
  called, or was called with the value already there) nothing is rendered.
\<close>

definition handle :: "variant \<Rightarrow> (nat \<Rightarrow> bool) \<Rightarrow> event \<Rightarrow> view \<Rightarrow> view" where
  "handle v isEqual e s =
     (let h = dispatch v e (hoverState s)
      in if h = hoverState s then s
         else \<lparr>hoverState = h, rendered = App v isEqual h (rendered s)\<rparr>)"

fun run :: "variant \<Rightarrow> (event \<times> (nat \<Rightarrow> bool)) list \<Rightarrow> view \<Rightarrow> view" where
  "run v [] s = s"
| "run v ((e, isEqual) # es) s = run v es (handle v isEqual e s)"

text \<open>
  The screen agrees with the state: 500 elements, each highlighted exactly when the
  state is its identifier.
\<close>

definition consistent :: "view \<Rightarrow> bool" where
  "consistent s \<longleftrightarrow>
     length (rendered s) = 500 \<and>
     list_all (\<lambda>i. highlighted s i = isHovered (hoverState s) (String i)) [0..<500]"


section \<open>The variant without React (vanilla/index.js)\<close>

text \<open>
  There is no shared state: the loop creates 500 elements, none with a background
  colour, and gives each two listeners that set the element's own
  \<^verbatim>\<open>style.backgroundColor\<close>.  The page is the list of these colours.  Only the 500
  elements have listeners, so an event for any other index finds nothing to run.
\<close>

definition root :: "string list" where
  "root = map (\<lambda>i. '''') [0..<500]"

definition mouseenter :: "nat \<Rightarrow> string list \<Rightarrow> string list" where
  "mouseenter i page = page[i := ''#eee'']"

definition mouseleave :: "nat \<Rightarrow> string list \<Rightarrow> string list" where
  "mouseleave i page = page[i := '''']"

fun dispatch_vanilla :: "event \<Rightarrow> string list \<Rightarrow> string list" where
  "dispatch_vanilla (MouseEnter i) page = (if i < length page then mouseenter i page else page)"
| "dispatch_vanilla (MouseLeave i) page = (if i < length page then mouseleave i page else page)"

fun run_vanilla :: "event list \<Rightarrow> string list \<Rightarrow> string list" where
  "run_vanilla [] page = page"
| "run_vanilla (e # es) page = run_vanilla es (dispatch_vanilla e page)"

definition highlighted_vanilla :: "string list \<Rightarrow> nat \<Rightarrow> bool" where
  "highlighted_vanilla page i \<longleftrightarrow> i < length page \<and> page ! i = ''#eee''"

text \<open>
  An order of delivery in which the pointer leaves the element it is in before it
  enters another one: \<open>cur\<close> is the element the pointer is in, if any.
\<close>

fun leave_before_enter :: "nat option \<Rightarrow> event list \<Rightarrow> bool" where
  "leave_before_enter cur [] = True"
| "leave_before_enter cur (MouseEnter i # es) =
     ((cur = None \<or> cur = Some i) \<and> leave_before_enter (Some i) es)"
| "leave_before_enter cur (MouseLeave i # es) =
     leave_before_enter (if cur = Some i then None else cur) es"


section \<open>Facts about identifiers\<close>

text \<open>The list \<open>[0..<500]\<close> of the loops is never unfolded into its 500 elements.\<close>

declare upt_rec_numeral [simp del]

lemma nth_map_upt_500: "i < 500 \<Longrightarrow> map f [0..<500] ! i = f i"
  using nth_map_upt [of i 500 0 f] by simp

lemma of_char_digit: "d < 10 \<Longrightarrow> of_char (digit d) = 48 + d"
proof -
  assume "d < 10"
  then have "d \<in> {0, 1, 2, 3, 4, 5, 6, 7, 8, 9}" by auto
  then show ?thesis by (auto simp: digit_def)
qed

lemma decimal_snoc: "decimal (cs @ [c]) = 10 * decimal cs + (of_char c - 48)"
  by (simp add: decimal_def)

lemma decimal_String: "decimal (String n) = n"
proof (induction n rule: String.induct)
  case (1 n)
  show ?case
  proof (cases "n < 10")
    case True
    then show ?thesis
      by (simp add: String.simps [of n] decimal_def of_char_digit)
  next
    case False
    with 1 have "decimal (String (n div 10)) = n div 10" by simp
    with False show ?thesis
      by (simp add: String.simps [of n] decimal_snoc of_char_digit)
  qed
qed

lemma String_inject: "String i = String j \<longleftrightarrow> i = j"
proof
  assume "String i = String j"
  then have "decimal (String i) = decimal (String j)" by simp
  then show "i = j" by (simp add: decimal_String)
qed simp

lemma String_not_empty: "String n \<noteq> ''''"
  by (subst String.simps) simp

lemma String_digits: "set (String n) \<subseteq> set ''0123456789''"
proof (induction n rule: String.induct)
  case (1 n)
  have d: "digit d \<in> set ''0123456789''" if "d < 10" for d
  proof -
    from that have "d \<in> {0, 1, 2, 3, 4, 5, 6, 7, 8, 9}" by auto
    then show ?thesis by (auto simp: digit_def)
  qed
  show ?case
  proof (cases "n < 10")
    case True
    then show ?thesis using d [of n] by (simp add: String.simps [of n])
  next
    case False
    with 1 have "set (String (n div 10)) \<subseteq> set ''0123456789''" by simp
    with False show ?thesis using d [of "n mod 10"] by (simp add: String.simps [of n])
  qed
qed

lemma String_3: "String 3 = ''3''"
  by (simp add: String.simps digit_def)

lemma String_7: "String 7 = ''7''"
  by (simp add: String.simps digit_def)


section \<open>Facts about the handlers\<close>

lemmas handler_defs =
  onMouseEnter_inline_def onMouseLeave_inline_def
  handleMouseEnter_def handleMouseLeave_def
  handleMouseEnter_memo_def handleMouseLeave_memo_def
  handleMouseEnter_useCallback_def handleMouseLeave_useCallback_def
  initial_hoveredElementId_def

text \<open>The two operators differ, but not on two strings.\<close>

lemma loose_eq_differs_from_strict_eq:
  "loose_eq JSNull JSUndefined \<and> \<not> strict_eq JSNull JSUndefined"
  by simp

lemma loose_eq_strings: "loose_eq (JSString x) (JSString y) \<longleftrightarrow> strict_eq (JSString x) (JSString y)"
  by simp

lemma isHovered_iff: "isHovered h x \<longleftrightarrow> h = x"
  by (simp add: isHovered_def)

lemma onEnter_general: "onEnter v x h = x"
  by (cases v) (simp_all add: handler_defs)

lemma onLeave_general:
  "v \<noteq> MemoUseCallback \<Longrightarrow> onLeave v x h = (if x = h then '''' else h)"
  by (cases v) (simp_all add: handler_defs)

text \<open>
  With \<open>useCallback\<close> the guard compares the identifier with the initial state, which
  no item has as its identifier: leaving an item never clears the hover state there.
\<close>

lemma onLeave_useCallback_item: "onLeave MemoUseCallback (String i) h = h"
  by (simp add: handler_defs String_not_empty)


section \<open>The screen agrees with the state\<close>

text \<open>
  An element that \<open>React.memo\<close> does not render again shows what it showed before.  The
  two tests in front of \<open>_.isEqual\<close> make this harmless: an element is skipped only if
  neither the old nor the new state is its identifier, so its highlight was off and
  stays off.
\<close>

lemma MemoedElement_isHovered:
  "isHovered (MemoedElement q x old new) x = isHovered new x"
  by (simp add: MemoedElement_def propsAreEqual_def isHovered_def)

lemma length_App: "length (App v q h prev) = 500"
  by (cases v) simp_all

lemma App_nth:
  assumes "i < 500"
  shows "isHovered (App v q h prev ! i) (String i) = isHovered h (String i)"
  using assms by (cases v) (simp_all add: MemoedElement_isHovered nth_map_upt_500)

lemma consistent_iff:
  "consistent s \<longleftrightarrow>
     length (rendered s) = 500 \<and>
     (\<forall>i. highlighted s i \<longleftrightarrow> i < 500 \<and> hoverState s = String i)"
proof
  assume c: "consistent s"
  then have len: "length (rendered s) = 500"
    and all: "\<forall>i<500. highlighted s i = isHovered (hoverState s) (String i)"
    by (simp_all add: consistent_def list_all_iff)
  have "highlighted s i \<longleftrightarrow> i < 500 \<and> hoverState s = String i" for i
  proof (cases "i < 500")
    case True
    with all show ?thesis by (simp add: isHovered_iff)
  next
    case False
    with len show ?thesis by (simp add: highlighted_def)
  qed
  with len show "length (rendered s) = 500 \<and>
     (\<forall>i. highlighted s i \<longleftrightarrow> i < 500 \<and> hoverState s = String i)"
    by simp
next
  assume "length (rendered s) = 500 \<and>
     (\<forall>i. highlighted s i \<longleftrightarrow> i < 500 \<and> hoverState s = String i)"
  then show "consistent s"
    by (simp add: consistent_def list_all_iff isHovered_iff)
qed

lemma consistent_mount: "consistent mount"
  by (simp add: consistent_iff mount_def highlighted_def isHovered_iff nth_map_upt_500
      initial_hoveredElementId_def String_not_empty [symmetric])

lemma hoverState_handle: "hoverState (handle v q e s) = dispatch v e (hoverState s)"
  by (simp add: handle_def Let_def)

lemma hoverState_run:
  "hoverState (run v es s) = foldl (\<lambda>h (e, q). dispatch v e h) (hoverState s) es"
  by (induction es arbitrary: s) (auto simp: hoverState_handle)

lemma consistent_handle:
  assumes "consistent s"
  shows "consistent (handle v q e s)"
proof (cases "dispatch v e (hoverState s) = hoverState s")
  case True
  with assms show ?thesis by (simp add: handle_def)
next
  case False
  then show ?thesis
    by (simp add: handle_def Let_def consistent_iff highlighted_def length_App App_nth
        isHovered_iff [symmetric] cong: conj_cong)
qed

lemma consistent_run: "consistent s \<Longrightarrow> consistent (run v es s)"
  by (induction es arbitrary: s) (auto simp: consistent_handle)

lemma reachable_consistent: "consistent (run v es mount)"
  by (rule consistent_run [OF consistent_mount])

lemma highlighted_reachable:
  "highlighted (run v es mount) i \<longleftrightarrow> i < 500 \<and> hoverState (run v es mount) = String i"
  using reachable_consistent [of v es] by (simp add: consistent_iff)

lemma highlighted_handle_reachable:
  "highlighted (handle v q e (run v es mount)) i \<longleftrightarrow>
     i < 500 \<and> hoverState (handle v q e (run v es mount)) = String i"
  using consistent_handle [OF reachable_consistent, of v q e v es] by (simp add: consistent_iff)

lemma consistent_at_most_one:
  assumes "consistent s" "highlighted s i" "highlighted s j"
  shows "i = j"
  using assms by (auto simp: consistent_iff String_inject)

lemma handle_unchanged: "dispatch v e (hoverState s) = hoverState s \<Longrightarrow> handle v q e s = s"
  by (simp add: handle_def)


section \<open>Facts about the variant without React\<close>

lemma length_root: "length root = 500"
  by (simp add: root_def)

lemma root_nth: "i < 500 \<Longrightarrow> root ! i = ''''"
  by (simp add: root_def nth_map_upt_500)

text \<open>Every element's colour is one of the two the listeners write.\<close>

lemma colours_dispatch:
  assumes "\<forall>i<length page. page ! i = '''' \<or> page ! i = ''#eee''"
  shows "\<forall>i<length (dispatch_vanilla e page).
           dispatch_vanilla e page ! i = '''' \<or> dispatch_vanilla e page ! i = ''#eee''"
  using assms by (cases e) (simp_all add: mouseenter_def mouseleave_def nth_list_update)

lemma colours_run:
  assumes "\<forall>i<length page. page ! i = '''' \<or> page ! i = ''#eee''"
  shows "\<forall>i<length (run_vanilla es page).
           run_vanilla es page ! i = '''' \<or> run_vanilla es page ! i = ''#eee''"
  using assms
proof (induction es arbitrary: page)
  case Nil
  then show ?case by simp
next
  case (Cons e es)
  from Cons.IH [OF colours_dispatch [OF Cons.prems]] show ?case by simp
qed

lemma colours_root: "\<forall>i<length root. root ! i = '''' \<or> root ! i = ''#eee''"
  by (simp add: length_root root_nth)

lemma leave_not_highlighted_vanilla:
  assumes "\<forall>i<length page. page ! i = '''' \<or> page ! i = ''#eee''"
    and "\<not> highlighted_vanilla page i"
  shows "dispatch_vanilla (MouseLeave i) page = page"
proof (cases "i < length page")
  case True
  with assms have "page ! i = ''''"
    by (auto simp: highlighted_vanilla_def)
  with True show ?thesis using list_update_id [of page i] by (simp add: mouseleave_def)
next
  case False
  then show ?thesis by simp
qed

lemma highlighted_dispatch_enter:
  "highlighted_vanilla (dispatch_vanilla (MouseEnter i) page) j \<longleftrightarrow>
     j < length page \<and> (j = i \<or> highlighted_vanilla page j)"
  by (auto simp: highlighted_vanilla_def mouseenter_def nth_list_update)

lemma highlighted_dispatch_leave:
  "highlighted_vanilla (dispatch_vanilla (MouseLeave i) page) j \<longleftrightarrow>
     j \<noteq> i \<and> highlighted_vanilla page j"
  by (auto simp: highlighted_vanilla_def mouseleave_def nth_list_update)

text \<open>
  While leaves are delivered before enters, the only element that can be highlighted
  is the one the pointer is in.
\<close>

lemma leave_before_enter_run:
  assumes "leave_before_enter cur es" "\<forall>j. highlighted_vanilla page j \<longrightarrow> cur = Some j"
    and "highlighted_vanilla (run_vanilla es page) i" "highlighted_vanilla (run_vanilla es page) j"
  shows "i = j"
  using assms
proof (induction cur es arbitrary: page rule: leave_before_enter.induct)
  case (1 cur)
  then show ?case by auto
next
  case (2 cur k es)
  let ?page = "dispatch_vanilla (MouseEnter k) page"
  from "2.prems"(1) have cur: "cur = None \<or> cur = Some k" and rest: "leave_before_enter (Some k) es"
    by simp_all
  from cur "2.prems"(2) have inv: "\<forall>j. highlighted_vanilla ?page j \<longrightarrow> Some k = Some j"
    unfolding highlighted_dispatch_enter by auto
  from "2.prems"(3,4) have "highlighted_vanilla (run_vanilla es ?page) i"
    "highlighted_vanilla (run_vanilla es ?page) j" by simp_all
  with "2.IH" [OF rest inv] show ?case .
next
  case (3 cur k es)
  let ?page = "dispatch_vanilla (MouseLeave k) page"
  let ?cur = "if cur = Some k then None else cur"
  from "3.prems"(1) have rest: "leave_before_enter ?cur es" by simp
  from "3.prems"(2) have inv: "\<forall>j. highlighted_vanilla ?page j \<longrightarrow> ?cur = Some j"
    unfolding highlighted_dispatch_leave by auto
  from "3.prems"(3,4) have "highlighted_vanilla (run_vanilla es ?page) i"
    "highlighted_vanilla (run_vanilla es ?page) j" by simp_all
  with "3.IH" [OF rest inv] show ?case .
qed


section \<open>The claims\<close>

subsection \<open>C1: a leave of an item that is not hovered changes nothing\<close>

text \<open>
  C1.  For every identifier and every hover state different from it (the empty "none"
  state included), \<open>onLeave\<close> leaves the hover state as it is, in every variant:
  \<^item> in the inline variant and the two variants of App.tsx, for every string at all;
  \<^item> in all four React variants, for the identifier \<^verbatim>\<open>String(i)\<close> of every item, which
    is what an element passes to the handler (with \<open>useCallback\<close> the guard reads the
    initial state, so there the statement is about item identifiers);
  \<^item> in all four React variants the whole view, not only the state, is unchanged;
  \<^item> without React, where an item is hovered when its own colour is set: the leave
    listener of an item that is not highlighted leaves every reachable page as it is.
\<close>

theorem leave_of_other_item_is_noop:
  "(v \<noteq> MemoUseCallback \<and> x \<noteq> h \<longrightarrow> onLeave v x h = h)
   \<and> (String i \<noteq> h \<longrightarrow> onLeave v (String i) h = h)
   \<and> (String i \<noteq> hoverState s \<longrightarrow> handle v q (MouseLeave i) s = s)
   \<and> (\<not> highlighted_vanilla (run_vanilla es root) i \<longrightarrow>
        dispatch_vanilla (MouseLeave i) (run_vanilla es root) = run_vanilla es root)"
proof -
  have item: "onLeave v (String i) h = h" if "String i \<noteq> h" for h
    using that by (cases v) (simp_all add: handler_defs String_not_empty)
  have "handle v q (MouseLeave i) s = s" if "String i \<noteq> hoverState s"
    using item [OF that] by (simp add: handle_def)
  moreover have "dispatch_vanilla (MouseLeave i) (run_vanilla es root) = run_vanilla es root"
    if "\<not> highlighted_vanilla (run_vanilla es root) i"
    using leave_not_highlighted_vanilla [OF colours_run [OF colours_root] that] .
  ultimately show ?thesis using item by (simp add: onLeave_general)
qed

theorem leave_of_other_item_is_noop_witness:
  "onLeave Extracted ''3'' ''7'' = ''7''
   \<and> onLeave MemoUseCallback (String 3) ''7'' = ''7''
   \<and> handle Memo (\<lambda>i. False) (MouseLeave 3) mount = mount
   \<and> dispatch_vanilla (MouseLeave 3) (run_vanilla [MouseEnter 7] root)
       = run_vanilla [MouseEnter 7] root"
proof -
  have a: "Extracted \<noteq> MemoUseCallback \<and> ''3'' \<noteq> ''7''" by simp
  have b: "String 3 \<noteq> ''7''" by (simp add: String_3)
  have c: "String 3 \<noteq> hoverState mount"
    by (simp add: mount_def initial_hoveredElementId_def String_not_empty)
  have d: "\<not> highlighted_vanilla (run_vanilla [MouseEnter 7] root) 3"
    by (simp add: highlighted_vanilla_def mouseenter_def length_root root_nth)
  from a b c d
    leave_of_other_item_is_noop
      [of Extracted "''3''" "''7''" 3 mount "\<lambda>i. False" "[MouseEnter 7]"]
    leave_of_other_item_is_noop
      [of MemoUseCallback "''3''" "''7''" 3 mount "\<lambda>i. False" "[MouseEnter 7]"]
    leave_of_other_item_is_noop
      [of Memo "''3''" "''7''" 3 mount "\<lambda>i. False" "[MouseEnter 7]"]
  show ?thesis by blast
qed


subsection \<open>C2: at most one item is highlighted\<close>

text \<open>
  The claim as stated fails without React: nothing there is shared between the
  elements, so after the pointer has entered item 3 and then item 7, with no leave
  delivered in between, both are highlighted.
\<close>

theorem vanilla_two_items_highlighted:
  "highlighted_vanilla (run_vanilla [MouseEnter 3, MouseEnter 7] root) 3
   \<and> highlighted_vanilla (run_vanilla [MouseEnter 3, MouseEnter 7] root) 7
   \<and> (3::nat) \<noteq> 7"
  by (simp add: highlighted_vanilla_def mouseenter_def length_root root_nth)

text \<open>
  C2, amended.  After any sequence of enter and leave events, handled one at a time
  from the first render of the 500 items, at most one item is highlighted in each of
  the four React variants (whatever \<open>_.isEqual\<close> answers in the memoised ones).
  Without React the same holds for the sequences in which the leave of an item is
  delivered before the enter of another one.  A prefix of a sequence is a sequence, so
  this is a statement about every point of a run.
\<close>

theorem at_most_one_item_highlighted:
  "(highlighted (run v es mount) i \<and> highlighted (run v es mount) j \<longrightarrow> i = j)
   \<and> (leave_before_enter None es' \<and> highlighted_vanilla (run_vanilla es' root) i
        \<and> highlighted_vanilla (run_vanilla es' root) j \<longrightarrow> i = j)"
proof -
  have "\<forall>j. highlighted_vanilla root j \<longrightarrow> None = Some j"
    by (simp add: highlighted_vanilla_def length_root root_nth)
  then show ?thesis
    using consistent_at_most_one [OF reachable_consistent, of v es i j]
      leave_before_enter_run [of None es' root i j]
    by blast
qed

theorem at_most_one_item_highlighted_witness:
  "highlighted (run Memo [(MouseEnter 3, \<lambda>i. False), (MouseEnter 7, \<lambda>i. True)] mount) 7
   \<and> \<not> highlighted (run Memo [(MouseEnter 3, \<lambda>i. False), (MouseEnter 7, \<lambda>i. True)] mount) 3
   \<and> leave_before_enter None [MouseEnter 3, MouseLeave 3, MouseEnter 7]
   \<and> highlighted_vanilla (run_vanilla [MouseEnter 3, MouseLeave 3, MouseEnter 7] root) 7
   \<and> \<not> highlighted_vanilla (run_vanilla [MouseEnter 3, MouseLeave 3, MouseEnter 7] root) 3"
proof -
  let ?es = "[(MouseEnter 3, \<lambda>i. False), (MouseEnter 7, \<lambda>i. True)]"
  let ?es' = "[MouseEnter 3, MouseLeave 3, MouseEnter 7]"
  have a: "highlighted (run Memo ?es mount) 7"
    by (simp add: handle_def Let_def mount_def highlighted_def isHovered_def handler_defs
        String_inject String_not_empty nth_map_upt_500 MemoedElement_def propsAreEqual_def)
  have b: "leave_before_enter None ?es'" by simp
  have c: "highlighted_vanilla (run_vanilla ?es' root) 7"
    by (simp add: highlighted_vanilla_def mouseenter_def mouseleave_def length_root root_nth)
  have n: "(3::nat) \<noteq> 7" by simp
  from a b c n
    at_most_one_item_highlighted [of Memo ?es 7 7 ?es']
    at_most_one_item_highlighted [of Memo ?es 3 7 ?es']
  show ?thesis by blast
qed


subsection \<open>C3: a late leave does not clear the newer hover\<close>

text \<open>
  C3.  From any state, in every React variant, entering item 3, entering item 7 and
  then leaving item 3 ends with the hover state \<^verbatim>\<open>String(7)\<close>, the string \<^verbatim>\<open>"7"\<close>.
\<close>

theorem late_leave_keeps_newer_hover:
  "hoverState (run v [(MouseEnter 3, q1), (MouseEnter 7, q2), (MouseLeave 3, q3)] s) = String 7
   \<and> String 7 = ''7''"
proof -
  have "onLeave v (String 3) (String 7) = String 7"
    by (cases v) (simp_all add: handler_defs String_inject String_not_empty)
  then show ?thesis
    by (simp add: hoverState_handle onEnter_general String_7)
qed


subsection \<open>C4: entering an item highlights it\<close>

text \<open>
  The claim as stated fails without React: the enter listener of item 7 writes the
  colour of item 7 only, so item 3, entered before and not yet left, stays highlighted.
\<close>

theorem vanilla_enter_keeps_other_highlight:
  "highlighted_vanilla (dispatch_vanilla (MouseEnter 7) (dispatch_vanilla (MouseEnter 3) root)) 3
   \<and> (3::nat) \<noteq> 7"
  by (simp add: highlighted_vanilla_def mouseenter_def length_root root_nth)

text \<open>
  C4, amended.  Right after the enter event of item \<open>i\<close>, item \<open>i\<close> is highlighted in
  every variant.  In the four React variants, from any reachable view, every other
  item is then not highlighted.  Without React every other item keeps the highlight
  it had before the event.
\<close>

theorem enter_highlights_only_that_item:
  "(i < 500 \<longrightarrow>
      highlighted (handle v q (MouseEnter i) (run v es mount)) i
      \<and> (\<forall>j. j \<noteq> i \<longrightarrow> \<not> highlighted (handle v q (MouseEnter i) (run v es mount)) j))
   \<and> (i < length page \<longrightarrow>
      highlighted_vanilla (dispatch_vanilla (MouseEnter i) page) i
      \<and> (\<forall>j. j \<noteq> i \<longrightarrow>
            highlighted_vanilla (dispatch_vanilla (MouseEnter i) page) j
            = highlighted_vanilla page j))"
proof -
  have hs: "hoverState (handle v q (MouseEnter i) (run v es mount)) = String i"
    by (simp add: hoverState_handle onEnter_general)
  have "highlighted (handle v q (MouseEnter i) (run v es mount)) j \<longleftrightarrow> j < 500 \<and> j = i"
    for j
    using highlighted_handle_reachable [of v q "MouseEnter i" es j]
    by (auto simp: hs String_inject)
  moreover have "highlighted_vanilla (dispatch_vanilla (MouseEnter i) page) j
      = highlighted_vanilla page j" if "j \<noteq> i" for j
    using that unfolding highlighted_dispatch_enter by (auto simp: highlighted_vanilla_def)
  moreover have "highlighted_vanilla (dispatch_vanilla (MouseEnter i) page) i"
    if "i < length page"
    using that unfolding highlighted_dispatch_enter by simp
  ultimately show ?thesis by blast
qed

theorem enter_highlights_only_that_item_witness:
  "highlighted
     (handle Memo (\<lambda>i. True) (MouseEnter 7) (run Memo [(MouseEnter 3, \<lambda>i. True)] mount)) 7
   \<and> \<not> highlighted
     (handle Memo (\<lambda>i. True) (MouseEnter 7) (run Memo [(MouseEnter 3, \<lambda>i. True)] mount)) 3
   \<and> highlighted_vanilla (dispatch_vanilla (MouseEnter 7) root) 7
   \<and> highlighted_vanilla (dispatch_vanilla (MouseEnter 7) root) 3 = highlighted_vanilla root 3"
proof -
  have "(7::nat) < 500 \<and> (3::nat) \<noteq> 7 \<and> 7 < length root"
    by (simp add: length_root)
  with enter_highlights_only_that_item
    [of 7 Memo "\<lambda>i. True" "[(MouseEnter 3, \<lambda>i. True)]" root]
  show ?thesis by blast
qed


subsection \<open>C5: a leave of the hovered item clears the hover state\<close>




subsection \<open>C6: entering sets the hover state, and is idempotent\<close>

text \<open>
  C6.  In every React variant, \<open>onEnter\<close> of an identifier makes the hover state that
  identifier whatever it was before, and a second \<open>onEnter\<close> of the same identifier
  right after the first changes nothing: neither the state the handler returns, nor,
  for the enter event of an item, the view.
\<close>

theorem onEnter_sets_and_idempotent:
  "onEnter v x h = x \<and> onEnter v x (onEnter v x h) = onEnter v x h
   \<and> hoverState (handle v q (MouseEnter i) s) = String i
   \<and> handle v q' (MouseEnter i) (handle v q (MouseEnter i) s) = handle v q (MouseEnter i) s"
proof -
  let ?s = "handle v q (MouseEnter i) s"
  have hs: "hoverState ?s = String i"
    by (simp add: hoverState_handle onEnter_general)
  then have "dispatch v (MouseEnter i) (hoverState ?s) = hoverState ?s"
    by (simp add: onEnter_general)
  from handle_unchanged [OF this] hs show ?thesis
    by (simp add: onEnter_general)
qed


subsection \<open>C7: the guard with \<open>==\<close> and the guard with \<open>===\<close>\<close>

text \<open>
  C7.  \<open>handleMouseLeave\<close> with \<^verbatim>\<open>==\<close> (first module of App.tsx; the inline handler
  likewise) and \<open>handleMouseLeave\<close> with \<^verbatim>\<open>===\<close> (second module) give the same hover
  state for every identifier and every hover state, both being strings; so do whole
  runs of the two variants on the same events.
\<close>

theorem loose_and_strict_leave_agree:
  "handleMouseLeave x h = handleMouseLeave_memo x h
   \<and> onMouseLeave_inline x h = handleMouseLeave_memo x h
   \<and> dispatch Extracted e h = dispatch Memo e h
   \<and> hoverState (run Extracted es s) = hoverState (run Memo es s)"
proof -
  have d: "dispatch Extracted e h = dispatch Memo e h" for e h
    by (cases e) (simp_all add: handler_defs)
  have "hoverState (run Extracted es s) = hoverState (run Memo es s)"
    by (simp add: hoverState_run d)
  with d show ?thesis by (simp add: handler_defs)
qed


subsection \<open>C8: no handler fails\<close>




subsection \<open>C9: the empty string is the identifier of no item\<close>

text \<open>
  C9.  The initial hover state is the empty string; \<^verbatim>\<open>String(i)\<close> is a non-empty
  string of decimal digits, so it is never the initial state; and whenever the hover
  state is the initial one (at the first render, or later in any run of any React
  variant) none of the 500 items is highlighted.
\<close>

theorem none_is_no_identifier:
  "initial_hoveredElementId = ''''
   \<and> String i \<noteq> '''' \<and> set (String i) \<subseteq> set ''0123456789''
   \<and> \<not> isHovered initial_hoveredElementId (String i)
   \<and> \<not> highlighted mount i
   \<and> (hoverState (run v es mount) = initial_hoveredElementId \<longrightarrow>
        \<not> highlighted (run v es mount) i)"
proof -
  have "\<not> highlighted (run v es mount) i"
    if "hoverState (run v es mount) = ''''"
    using that highlighted_reachable [of v es i] by (simp add: String_not_empty [symmetric])
  moreover have "\<not> highlighted mount i"
    using consistent_mount
    by (simp add: consistent_iff mount_def initial_hoveredElementId_def String_not_empty [symmetric])
  moreover note String_digits [of i] String_not_empty [of i]
  ultimately show ?thesis
    by (auto simp: initial_hoveredElementId_def isHovered_iff)
qed

theorem none_is_no_identifier_witness:
  "\<not> highlighted mount 499
   \<and> hoverState (run Inline [(MouseEnter 3, \<lambda>i. False), (MouseLeave 3, \<lambda>i. False)] mount)
       = initial_hoveredElementId
   \<and> \<not> highlighted (run Inline [(MouseEnter 3, \<lambda>i. False), (MouseLeave 3, \<lambda>i. False)] mount) 499"
proof -
  have a: "hoverState (run Inline [(MouseEnter 3, \<lambda>i. False), (MouseLeave 3, \<lambda>i. False)] mount)
       = initial_hoveredElementId"
    by (simp add: hoverState_handle handler_defs)
  from a none_is_no_identifier
    [of 499 Inline "[(MouseEnter 3, \<lambda>i. False), (MouseLeave 3, \<lambda>i. False)]"]
  show ?thesis by blast
qed


subsection \<open>C10: leaving is idempotent\<close>

text \<open>
  C10.  In every React variant a second \<open>onLeave\<close> of the same identifier right after
  the first leaves the state the first one produced; a second leave event of an item
  leaves the view the first one produced.
\<close>

theorem onLeave_idempotent:
  "onLeave v x (onLeave v x h) = onLeave v x h
   \<and> handle v q' (MouseLeave i) (handle v q (MouseLeave i) s) = handle v q (MouseLeave i) s"
proof -
  have idem: "onLeave v x (onLeave v x h) = onLeave v x h" for x h
    by (cases v) (simp_all add: handler_defs)
  let ?s = "handle v q (MouseLeave i) s"
  have "dispatch v (MouseLeave i) (hoverState ?s) = hoverState ?s"
    by (simp add: hoverState_handle idem)
  from handle_unchanged [OF this] idem show ?thesis by simp
qed

end
